theory Spec2Isabelle
  imports Main "HOL-Library.Word"
begin

section \<open>IFC to Fragments backend: converter service, upload route, error translation\<close>

text \<open>
  A shallow embedding of the TypeScript sources
  \<^item> \<^verbatim>\<open>src/services/ifc-converter.ts\<close> (class \<^verbatim>\<open>IfcToFragmentsConverter\<close>),
  \<^item> \<^verbatim>\<open>src/utils/file-utils.ts\<close> (\<^verbatim>\<open>readFileAsUint8Array\<close>, \<^verbatim>\<open>deleteTempFile\<close>),
  \<^item> \<^verbatim>\<open>src/routes/convert.ts\<close> in its two variants (the \<^verbatim>\<open>async\<close> handler with
    \<^verbatim>\<open>try/catch/finally\<close>, and the handler built on a promise chain),
  \<^item> \<^verbatim>\<open>src/middleware/error-handler.ts\<close> (\<^verbatim>\<open>ApiError\<close>, \<^verbatim>\<open>errorHandler\<close>,
    \<^verbatim>\<open>notFoundHandler\<close>).

  Exceptions are values of a sum type (\<open>Inl\<close> the thrown error), object fields that
  may be \<^verbatim>\<open>undefined\<close> or \<^verbatim>\<open>null\<close> are options, mutation is explicit state passing.
  One request is processed at a time: every \<^verbatim>\<open>await\<close> is a sequential step.
  What the third-party libraries and the runtime decide (the engine's constructor and
  its \<^verbatim>\<open>process\<close>, the clock, the captured stack trace, the numeric constants
  of \<^verbatim>\<open>web-ifc\<close>) is a field of the environment record \<open>env\<close>.
\<close>

subsection \<open>Values\<close>

type_synonym byte = "8 word"

text \<open>
  A value of \<^verbatim>\<open>req.body\<close> as the multipart parser builds it: a string, an array
  (a repeated field, or \<^verbatim>\<open>name[]\<close>), or an object (\<^verbatim>\<open>name[key]\<close>).
\<close>

datatype formValue =
    Str string
  | Arr "formValue list"
  | Obj "(string \<times> formValue) list"

text \<open>JavaScript truthiness of a possibly absent value: \<^verbatim>\<open>undefined\<close> and the empty
  string are falsy, every array and object is truthy.\<close>

fun truthy :: "formValue option \<Rightarrow> bool" where
  "truthy None = False"
| "truthy (Some (Str s)) = (s \<noteq> [])"
| "truthy (Some (Arr vs)) = True"
| "truthy (Some (Obj kvs)) = True"

fun joinWith :: "string \<Rightarrow> string list \<Rightarrow> string" where
  "joinWith sep [] = []"
| "joinWith sep [s] = s"
| "joinWith sep (s # t # ss) = s @ sep @ joinWith sep (t # ss)"

text \<open>
  String conversion inside a template literal: an array is its elements, converted,
  joined with commas. The objects the multipart parser builds have no prototype, so
  converting one (alone or as an element) throws a \<^verbatim>\<open>TypeError\<close>: \<open>None\<close>.
\<close>

fun toStringJS :: "formValue \<Rightarrow> string option" where
  "toStringJS (Str s) = Some s"
| "toStringJS (Arr vs) = map_option (joinWith '','') (those (map toStringJS vs))"
| "toStringJS (Obj kvs) = None"

text \<open>\<^verbatim>\<open>`${v}`\<close> for a possibly \<^verbatim>\<open>undefined\<close> value.\<close>

definition templateString :: "formValue option \<Rightarrow> string option" where
  "templateString v = (case v of None \<Rightarrow> Some ''undefined'' | Some x \<Rightarrow> toStringJS x)"

text \<open>
  The characters the HTTP layer accepts in a header value: the tab, and everything from
  the space on but \<^verbatim>\<open>DEL\<close>. (Strings are sequences of code units below 256 here; the
  HTTP layer refuses every code unit above 255 as well.)
\<close>

definition validHeaderChar :: "char \<Rightarrow> bool" where
  "validHeaderChar c = (c = CHR 0x09 \<or> (32 \<le> (of_char c :: nat) \<and> c \<noteq> CHR 0x7F))"

text \<open>\<^verbatim>\<open>String.prototype.replace(pattern, replacement)\<close> with a string pattern:
  the first occurrence only, compared code unit by code unit (case-sensitive).\<close>

fun replaceFirst :: "string \<Rightarrow> string \<Rightarrow> string \<Rightarrow> string" where
  "replaceFirst pat rep [] = (if pat = [] then rep else [])"
| "replaceFirst pat rep (c # cs) =
     (if take (length pat) (c # cs) = pat then rep @ drop (length pat) (c # cs)
      else c # replaceFirst pat rep cs)"

text \<open>\<^verbatim>\<open>toLowerCase\<close> on the ASCII letters (no other code unit lower-cases to one of
  the characters of \<^verbatim>\<open>.ifc\<close>), and \<^verbatim>\<open>endsWith\<close>.\<close>

definition toLowerChar :: "char \<Rightarrow> char" where
  "toLowerChar c =
     (case map_of (zip ''ABCDEFGHIJKLMNOPQRSTUVWXYZ'' ''abcdefghijklmnopqrstuvwxyz'') c of
        None \<Rightarrow> c
      | Some l \<Rightarrow> l)"

definition toLowerCase :: "string \<Rightarrow> string" where
  "toLowerCase s = map toLowerChar s"

definition endsWith :: "string \<Rightarrow> string \<Rightarrow> bool" where
  "endsWith s suf = (length suf \<le> length s \<and> drop (length s - length suf) s = suf)"

subsection \<open>Errors\<close>

text \<open>
  A thrown error object, with the properties the error handler reads
  (\<^verbatim>\<open>interface AppError extends Error\<close>). \<open>err_hasBody\<close> is \<^verbatim>\<open>"body" in err\<close>.
\<close>

record AppError =
  err_name :: string
  err_message :: string
  err_code :: "string option"
  err_statusCode :: "int option"
  err_status :: "string option"
  err_isOperational :: bool
  err_stack :: "string option"
  err_hasBody :: bool

text \<open>\<^verbatim>\<open>new Error(message)\<close>; the runtime captures the stack \<open>st\<close>.\<close>

definition JsError :: "string \<Rightarrow> string \<Rightarrow> AppError" where
  "JsError st msg =
     \<lparr>err_name = ''Error'', err_message = msg, err_code = None, err_statusCode = None,
      err_status = None, err_isOperational = False, err_stack = Some st,
      err_hasBody = False\<rparr>"

text \<open>A \<^verbatim>\<open>TypeError\<close> of the runtime, with its \<^verbatim>\<open>code\<close> when it has one.\<close>

definition TypeError :: "string \<Rightarrow> string option \<Rightarrow> string \<Rightarrow> AppError" where
  "TypeError st code msg = (JsError st msg)\<lparr>err_name := ''TypeError'', err_code := code\<rparr>"

text \<open>\<^verbatim>\<open>new ApiError(message, statusCode)\<close>.\<close>

definition ApiError :: "string \<Rightarrow> string \<Rightarrow> int \<Rightarrow> AppError" where
  "ApiError st msg statusCode =
     \<lparr>err_name = ''Error'', err_message = msg, err_code = None,
      err_statusCode = Some statusCode,
      err_status = Some (if 400 \<le> statusCode \<and> statusCode < 500 then ''fail'' else ''error''),
      err_isOperational = True, err_stack = Some st, err_hasBody = False\<rparr>"

subsection \<open>The converter service\<close>

datatype settingValue = SBool bool | SNum int

text \<open>The engine instance, as far as the service configures it.\<close>

record IfcImporter =
  wasm_path :: string
  wasm_absolute :: bool
  webIfcSettings :: "string \<rightharpoonup> settingValue"
  includeUniqueAttributes :: bool
  includeRelationNames :: bool
  classes_abstract :: "int set"
  relations :: "int \<rightharpoonup> (string \<times> string)"

text \<open>The numeric class identifiers the service takes from \<^verbatim>\<open>web-ifc\<close>.\<close>

record WEBIFC =
  IFCPROPERTYSET :: int
  IFCPROPERTYSINGLEVALUE :: int
  IFCPROPERTYLISTVALUE :: int
  IFCPROPERTYENUMERATEDVALUE :: int
  IFCPROPERTYBOUNDEDVALUE :: int
  IFCPROPERTYTABLEVALUE :: int
  IFCPROPERTYREFERENCEVALUE :: int
  IFCPROPERTYSETDEFINITION :: int
  IFCPROPERTYDEFINITION :: int
  IFCPROPERTY :: int
  IFCELEMENTQUANTITY :: int
  IFCQUANTITYLENGTH :: int
  IFCQUANTITYAREA :: int
  IFCQUANTITYVOLUME :: int
  IFCQUANTITYWEIGHT :: int
  IFCQUANTITYCOUNT :: int
  IFCRELDEFINESBYPROPERTIES :: int

text \<open>
  The environment. \<open>newIfcImporter\<close> is the outcome of \<^verbatim>\<open>new IfcImporter()\<close>: a fresh
  instance, or the message of what it throws. \<open>process\<close> is the engine's transform on
  an instance and the input bytes: the output bytes, or the message of what it throws;
  it does not change the instance's configuration. \<open>now\<close> is
  \<^verbatim>\<open>new Date().toISOString()\<close>, \<open>trace\<close> the stack the runtime captures in a new
  error, \<open>fsErrorMessage\<close> the text of a file system error, \<open>runtimeErrorMessage\<close> the
  text of a \<^verbatim>\<open>TypeError\<close> of the runtime, by its kind.
\<close>

record env =
  newIfcImporter :: "string + IfcImporter"
  process :: "IfcImporter \<Rightarrow> byte list \<Rightarrow> string + byte list"
  now :: string
  trace :: string
  fsErrorMessage :: "string \<Rightarrow> string \<Rightarrow> string"
  runtimeErrorMessage :: "string \<Rightarrow> string"
  webifc :: WEBIFC

record ConversionOptions =
  coordinateToOrigin :: "bool option"
  opt_name :: "formValue option"
  excludedCategories :: "int list option"
  includeProperties :: "bool option"

record Metadata =
  meta_name :: "formValue option"
  timestamp :: string
  meta_size :: nat
  meta_options :: ConversionOptions

record ConversionResult =
  data :: "byte list"
  metadata :: Metadata

text \<open>
  The class \<^verbatim>\<open>IfcToFragmentsConverter\<close>: its two private fields, and the ghost field
  \<open>engineCalls\<close> (not a field of the class), which records the inputs handed to the
  engine's \<^verbatim>\<open>process\<close>, oldest first.
\<close>

record IfcToFragmentsConverter =
  ifcImporter :: "IfcImporter option"
  wasmPath :: string
  engineCalls :: "byte list list"

definition newConverter :: "string \<Rightarrow> IfcToFragmentsConverter" where
  "newConverter wp = \<lparr>ifcImporter = None, wasmPath = wp, engineCalls = []\<rparr>"

text \<open>The exported singleton \<^verbatim>\<open>new IfcToFragmentsConverter()\<close>, with the default path.\<close>

definition ifcConverter0 :: IfcToFragmentsConverter where
  "ifcConverter0 = newConverter ''./node_modules/web-ifc/''"

definition propertyClasses :: "WEBIFC \<Rightarrow> int list" where
  "propertyClasses W =
     [IFCPROPERTYSET W, IFCPROPERTYSINGLEVALUE W, IFCPROPERTYLISTVALUE W,
      IFCPROPERTYENUMERATEDVALUE W, IFCPROPERTYBOUNDEDVALUE W, IFCPROPERTYTABLEVALUE W,
      IFCPROPERTYREFERENCEVALUE W, IFCPROPERTYSETDEFINITION W, IFCPROPERTYDEFINITION W,
      IFCPROPERTY W, IFCELEMENTQUANTITY W, IFCQUANTITYLENGTH W, IFCQUANTITYAREA W,
      IFCQUANTITYVOLUME W, IFCQUANTITYWEIGHT W, IFCQUANTITYCOUNT W]"

text \<open>
  The body of the \<^verbatim>\<open>try\<close> block of \<^verbatim>\<open>initialize\<close> after the constructor returned.
  (The earlier revision of the service stops after the settings; \<^verbatim>\<open>convert\<close> and
  \<^verbatim>\<open>cleanup\<close> are the same in both.)
\<close>

definition configure :: "WEBIFC \<Rightarrow> string \<Rightarrow> IfcImporter \<Rightarrow> IfcImporter" where
  "configure W wp fresh =
     (let i1 = fresh\<lparr>wasm_path := wp, wasm_absolute := False,
                     webIfcSettings := [''COORDINATE_TO_ORIGIN'' \<mapsto> SBool True],
                     includeUniqueAttributes := True, includeRelationNames := True\<rparr>;
          i2 = i1\<lparr>classes_abstract := fold insert (propertyClasses W) (classes_abstract i1)\<rparr>
      in if relations i2 (IFCRELDEFINESBYPROPERTIES W) = None
         then i2\<lparr>relations := (relations i2)(IFCRELDEFINESBYPROPERTIES W \<mapsto>
                    (''RelatingPropertyDefinition'', ''RelatedObjects''))\<rparr>
         else i2)"

text \<open>
  \<^verbatim>\<open>initialize()\<close>. The assignment to \<^verbatim>\<open>this.ifcImporter\<close> happens only when the
  constructor returns, so a failed call leaves the handle as it was.
\<close>

definition initialize ::
  "env \<Rightarrow> IfcToFragmentsConverter \<Rightarrow> (AppError + unit) \<times> IfcToFragmentsConverter" where
  "initialize e c =
     (case newIfcImporter e of
        Inl msg \<Rightarrow> (Inl (JsError (trace e) (''Failed to initialize IFC importer: '' @ msg)), c)
      | Inr fresh \<Rightarrow>
          (Inr (), c\<lparr>ifcImporter := Some (configure (webifc e) (wasmPath c) fresh)\<rparr>))"

definition notInitializedMessage :: string where
  "notInitializedMessage = ''IFC importer not initialized. Call initialize() first.''"

text \<open>
  \<^verbatim>\<open>convert(ifcData, options)\<close>. The test of the handle is outside the \<^verbatim>\<open>try\<close> block,
  so its error is not wrapped. The settings are overridden before the engine is
  called, and stay so whatever the engine does.
\<close>

definition convert ::
  "env \<Rightarrow> IfcToFragmentsConverter \<Rightarrow> byte list \<Rightarrow> ConversionOptions
     \<Rightarrow> (AppError + ConversionResult) \<times> IfcToFragmentsConverter" where
  "convert e c ifcData options =
     (case ifcImporter c of
        None \<Rightarrow> (Inl (JsError (trace e) notInitializedMessage), c)
      | Some imp \<Rightarrow>
          (let imp1 = (case coordinateToOrigin options of
                         None \<Rightarrow> imp
                       | Some b \<Rightarrow> imp\<lparr>webIfcSettings :=
                           (webIfcSettings imp)(''COORDINATE_TO_ORIGIN'' \<mapsto> SBool b)\<rparr>);
               c1 = c\<lparr>ifcImporter := Some imp1, engineCalls := engineCalls c @ [ifcData]\<rparr>
           in case process e imp1 ifcData of
                Inl msg \<Rightarrow>
                  (Inl (JsError (trace e) (''Failed to convert IFC to Fragments: '' @ msg)), c1)
              | Inr fragmentsData \<Rightarrow>
                  (Inr \<lparr>data = fragmentsData,
                        metadata = \<lparr>meta_name = opt_name options, timestamp = now e,
                                    meta_size = length fragmentsData,
                                    meta_options = options\<rparr>\<rparr>, c1)))"

definition cleanup :: "IfcToFragmentsConverter \<Rightarrow> IfcToFragmentsConverter" where
  "cleanup c = (if ifcImporter c \<noteq> None then c\<lparr>ifcImporter := None\<rparr> else c)"

subsection \<open>File utilities\<close>

text \<open>
  The file system: the files by path, and the paths whose \<^verbatim>\<open>unlink\<close> the system
  refuses (permissions, a busy or read-only volume, an I/O error) with the code it
  gives. \<open>console\<close> collects what \<^verbatim>\<open>console.error\<close> prints.
\<close>

datatype unlinkFault = EACCES | EPERM | EBUSY | EROFS | EIO

datatype errno = ENOENT | Fault unlinkFault

datatype logEntry =
    LogError int string
  | LogStack "string option"
  | LogDeleteFailed string errno
  | LogStartFailed AppError

record world =
  ifcConverter :: IfcToFragmentsConverter
  files :: "string \<rightharpoonup> byte list"
  unlinkFaults :: "string \<rightharpoonup> unlinkFault"
  console :: "logEntry list"

definition fsError :: "env \<Rightarrow> string \<Rightarrow> string \<Rightarrow> AppError" where
  "fsError e code p = (JsError (trace e) (fsErrorMessage e code p))\<lparr>err_code := Some code\<rparr>"

definition readFileAsUint8Array :: "env \<Rightarrow> world \<Rightarrow> string \<Rightarrow> AppError + byte list" where
  "readFileAsUint8Array e w filePath =
     (case files w filePath of
        None \<Rightarrow> Inl (fsError e ''ENOENT'' filePath)
      | Some buffer \<Rightarrow> Inr buffer)"

definition unlink :: "world \<Rightarrow> string \<Rightarrow> errno + world" where
  "unlink w p =
     (case files w p of
        None \<Rightarrow> Inl ENOENT
      | Some buffer \<Rightarrow>
          (case unlinkFaults w p of
             Some code \<Rightarrow> Inl (Fault code)
           | None \<Rightarrow> Inr (w\<lparr>files := (files w)(p := None)\<rparr>)))"

text \<open>\<^verbatim>\<open>deleteTempFile\<close>: every error of \<^verbatim>\<open>unlink\<close> is caught; all but \<^verbatim>\<open>ENOENT\<close>
  are printed. Nothing is thrown.\<close>

definition deleteTempFile :: "world \<Rightarrow> string \<Rightarrow> world" where
  "deleteTempFile w filePath =
     (case unlink w filePath of
        Inr w' \<Rightarrow> w'
      | Inl code \<Rightarrow>
          (if code \<noteq> ENOENT
           then w\<lparr>console := console w @ [LogDeleteFailed filePath code]\<rparr>
           else w))"

subsection \<open>Error translation\<close>

record ErrorBody =
  body_status :: string
  body_message :: string
  body_stack :: "string option"

record JsonResponse =
  res_statusCode :: int
  res_body :: ErrorBody

text \<open>
  \<^verbatim>\<open>errorHandler\<close>, with the value of \<^verbatim>\<open>process.env.NODE_ENV\<close>. It returns the
  response and what it prints. A \<^verbatim>\<open>stack\<close> property that is \<^verbatim>\<open>undefined\<close> is
  left out of the JSON body, like an absent one.
\<close>

definition errorHandler :: "string option \<Rightarrow> AppError \<Rightarrow> JsonResponse \<times> logEntry list" where
  "errorHandler nodeEnv err =
     (let statusCode = (case err_statusCode err of
                          None \<Rightarrow> 500
                        | Some n \<Rightarrow> if n = 0 then 500 else n);
          status = (case err_status err of
                      None \<Rightarrow> ''error''
                    | Some s \<Rightarrow> if s = [] then ''error'' else s);
          printed = LogError statusCode (err_message err) #
                    (if nodeEnv \<noteq> Some ''production'' then [LogStack (err_stack err)] else [])
      in if err_name err = ''MulterError''
         then (\<lparr>res_statusCode = 400,
                 res_body = \<lparr>body_status = ''fail'',
                             body_message = ''File upload error: '' @ err_message err,
                             body_stack = None\<rparr>\<rparr>, printed)
         else if err_name err = ''SyntaxError'' \<and> err_hasBody err
         then (\<lparr>res_statusCode = 400,
                 res_body = \<lparr>body_status = ''fail'',
                             body_message = ''Invalid JSON in request body'',
                             body_stack = None\<rparr>\<rparr>, printed)
         else (\<lparr>res_statusCode = statusCode,
                 res_body = \<lparr>body_status = status,
                             body_message = (if err_isOperational err then err_message err
                                             else ''Internal server error''),
                             body_stack = (if nodeEnv \<noteq> Some ''production''
                                           then err_stack err else None)\<rparr>\<rparr>, printed))"

definition notFoundHandler :: "string \<Rightarrow> JsonResponse" where
  "notFoundHandler originalUrl =
     \<lparr>res_statusCode = 404,
      res_body = \<lparr>body_status = ''fail'',
                  body_message = ''Route '' @ originalUrl @ '' not found'',
                  body_stack = None\<rparr>\<rparr>"

subsection \<open>The upload middleware's configuration\<close>

record Multer_File =
  fieldname :: string
  originalname :: string
  mimetype :: string
  file_path :: string
  file_size :: nat

text \<open>The \<^verbatim>\<open>fileFilter\<close> callback: \<open>None\<close> accepts, \<open>Some err\<close> rejects with \<open>err\<close>.\<close>

definition fileFilter :: "string \<Rightarrow> Multer_File \<Rightarrow> AppError option" where
  "fileFilter st file =
     (if mimetype file = ''application/x-step''
         \<or> endsWith (toLowerCase (originalname file)) ''.ifc''
      then None
      else Some (ApiError st ''Only IFC files are allowed'' 400))"

definition limits_fileSize :: nat where
  "limits_fileSize = 100 * 1024 * 1024"

text \<open>
  The error object the upload library passes on: an \<^verbatim>\<open>Error\<close> whose \<^verbatim>\<open>name\<close> is
  \<^verbatim>\<open>MulterError\<close>, with a \<^verbatim>\<open>code\<close> and the library's message for it. A file
  that reaches \<^verbatim>\<open>limits.fileSize\<close> bytes (the library refuses a file of exactly the
  limit as well) gives the code \<^verbatim>\<open>LIMIT_FILE_SIZE\<close>, whose message is
  \<^verbatim>\<open>File too large\<close>.
\<close>

definition MulterError :: "string \<Rightarrow> string \<Rightarrow> string \<Rightarrow> AppError" where
  "MulterError st code msg = (JsError st msg)\<lparr>err_name := ''MulterError'', err_code := Some code\<rparr>"

definition fileSizeLimit :: "string \<Rightarrow> nat \<Rightarrow> AppError option" where
  "fileSizeLimit st n =
     (if limits_fileSize \<le> n then Some (MulterError st ''LIMIT_FILE_SIZE'' ''File too large'')
      else None)"

subsection \<open>The routes\<close>

record Request =
  req_file :: "Multer_File option"
  req_body :: "string \<rightharpoonup> formValue"

record Headers =
  contentType :: string
  contentDisposition :: string
  contentLength :: nat
  xFragmentsMetadata :: Metadata

text \<open>
  What the client receives: the binary answer with its headers (status 200), or a JSON
  fault. The \<^verbatim>\<open>Content-Length\<close> and \<^verbatim>\<open>X-Fragments-Metadata\<close> headers are kept as the
  number and the metadata object they serialise.
\<close>

datatype response = Binary Headers "byte list" | Json JsonResponse

text \<open>\<^verbatim>\<open>next(error)\<close>: the application mounts \<^verbatim>\<open>errorHandler\<close> as its error
  middleware, which answers and prints at once.\<close>

definition next_error :: "string option \<Rightarrow> AppError \<Rightarrow> world \<Rightarrow> response \<times> world" where
  "next_error nodeEnv err w =
     (case errorHandler nodeEnv err of
        (r, printed) \<Rightarrow> (Json r, w\<lparr>console := console w @ printed\<rparr>))"

definition noFileMessage :: string where
  "noFileMessage =
     ''No IFC file uploaded. Please upload a file with field name '' @ [CHR 0x27] @ ''ifc''
       @ [CHR 0x27]"

definition disposition :: "string \<Rightarrow> string" where
  "disposition n = ''attachment; filename='' @ [CHR 0x22] @ n @ ''.frag'' @ [CHR 0x22]"

definition successHeaders :: "string \<Rightarrow> ConversionResult \<Rightarrow> Headers" where
  "successHeaders contentDispositionValue result =
     \<lparr>contentType = ''application/octet-stream'',
      contentDisposition = contentDispositionValue,
      contentLength = length (data result),
      xFragmentsMetadata = metadata result\<rparr>"

text \<open>
  \<^verbatim>\<open>res.set({...})\<close>. Building the object evaluates the template
  \<^verbatim>\<open>`attachment; filename="${options.name}.frag"`\<close>, which throws when the name
  cannot be converted to a string; setting the header throws when its value has a
  character the HTTP layer refuses. Both are caught by the handler and handed to
  \<^verbatim>\<open>next\<close>. The other three values are always accepted: the content type is a
  constant, the length is a decimal, and the metadata is JSON, which escapes every
  control character below the space; a \<^verbatim>\<open>DEL\<close> in it comes from the name, which
  the disposition header, set before it, has refused already. The timestamp is an ISO
  date.
\<close>

definition setHeaders :: "env \<Rightarrow> ConversionOptions \<Rightarrow> ConversionResult \<Rightarrow> AppError + Headers" where
  "setHeaders e options result =
     (case templateString (opt_name options) of
        None \<Rightarrow> Inl (TypeError (trace e) None (runtimeErrorMessage e ''TO_PRIMITIVE''))
      | Some n \<Rightarrow>
          (if list_all validHeaderChar (disposition n)
           then Inr (successHeaders (disposition n) result)
           else Inl (TypeError (trace e) (Some ''ERR_INVALID_CHAR'')
                       (runtimeErrorMessage e ''ERR_INVALID_CHAR''))))"

text \<open>The options of the first variant: \<^verbatim>\<open>req.body.name || originalname.replace(".ifc", "")\<close>.\<close>

definition optionsA :: "Request \<Rightarrow> Multer_File \<Rightarrow> ConversionOptions" where
  "optionsA req file =
     \<lparr>coordinateToOrigin = Some (req_body req ''coordinateToOrigin'' \<noteq> Some (Str ''false'')),
      opt_name = (if truthy (req_body req ''name'') then req_body req ''name''
                  else Some (Str (replaceFirst ''.ifc'' [] (originalname file)))),
      excludedCategories = None,
      includeProperties = None\<rparr>"

text \<open>The options of the second variant:
  \<^verbatim>\<open>typeof body.name === "string" ? body.name : originalname.replace(".ifc", "")\<close>.\<close>

definition optionsB :: "Request \<Rightarrow> Multer_File \<Rightarrow> ConversionOptions" where
  "optionsB req file =
     \<lparr>coordinateToOrigin = Some (req_body req ''coordinateToOrigin'' \<noteq> Some (Str ''false'')),
      opt_name = (case req_body req ''name'' of
                    Some (Str s) \<Rightarrow> Some (Str s)
                  | _ \<Rightarrow> Some (Str (replaceFirst ''.ifc'' [] (originalname file)))),
      excludedCategories = None,
      includeProperties = None\<rparr>"

text \<open>The part of the handler both variants share once the options are chosen: read
  the staged file, convert, set the headers, send. An error of any of the first three
  goes to \<^verbatim>\<open>next\<close>; the converter keeps what \<^verbatim>\<open>convert\<close> did to it.\<close>

definition readAndConvert ::
  "env \<Rightarrow> string option \<Rightarrow> ConversionOptions \<Rightarrow> string \<Rightarrow> world \<Rightarrow> response \<times> world" where
  "readAndConvert e nodeEnv options filePath w =
     (case readFileAsUint8Array e w filePath of
        Inl err \<Rightarrow> next_error nodeEnv err w
      | Inr ifcData \<Rightarrow>
          (case convert e (ifcConverter w) ifcData options of
             (Inl err, c') \<Rightarrow> next_error nodeEnv err (w\<lparr>ifcConverter := c'\<rparr>)
           | (Inr result, c') \<Rightarrow>
               (case setHeaders e options result of
                  Inl err \<Rightarrow> next_error nodeEnv err (w\<lparr>ifcConverter := c'\<rparr>)
                | Inr headers \<Rightarrow>
                    (Binary headers (data result), w\<lparr>ifcConverter := c'\<rparr>))))"

text \<open>
  \<^verbatim>\<open>POST /convert\<close>, first variant: \<^verbatim>\<open>try { ... } catch (error) { next(error) }
  finally { if (filePath) await deleteTempFile(filePath) }\<close>. Without a file the error
  is thrown while \<^verbatim>\<open>filePath\<close> is still \<^verbatim>\<open>null\<close>; an empty path is falsy as well.
\<close>

definition convertRouteA ::
  "env \<Rightarrow> string option \<Rightarrow> Request \<Rightarrow> world \<Rightarrow> response \<times> world" where
  "convertRouteA e nodeEnv req w =
     (case req_file req of
        None \<Rightarrow> next_error nodeEnv (ApiError (trace e) noFileMessage 400) w
      | Some file \<Rightarrow>
          (case readAndConvert e nodeEnv (optionsA req file) (file_path file) w of
             (res, w1) \<Rightarrow>
               (res, if file_path file \<noteq> [] then deleteTempFile w1 (file_path file) else w1)))"

text \<open>
  \<^verbatim>\<open>POST /convert\<close>, second variant:
  \<^verbatim>\<open>processConversion().catch(next).finally(() => { if (filePath) deleteTempFile(filePath).catch(...) })\<close>.
  \<^verbatim>\<open>deleteTempFile\<close> never rejects, so the inner \<^verbatim>\<open>catch\<close> never runs.
\<close>

definition convertRouteB ::
  "env \<Rightarrow> string option \<Rightarrow> Request \<Rightarrow> world \<Rightarrow> response \<times> world" where
  "convertRouteB e nodeEnv req w =
     (case req_file req of
        None \<Rightarrow> next_error nodeEnv (ApiError (trace e) noFileMessage 400) w
      | Some file \<Rightarrow>
          (case readAndConvert e nodeEnv (optionsB req file) (file_path file) w of
             (res, w1) \<Rightarrow>
               (res, if file_path file \<noteq> [] then deleteTempFile w1 (file_path file) else w1)))"

record StatusBody =
  status :: string
  ready :: bool
  service :: string
  version :: string

text \<open>\<^verbatim>\<open>GET /status\<close> (the same in both variants). The handler can read the singleton
  converter of the process, given here as its argument.\<close>

definition statusRoute :: "IfcToFragmentsConverter \<Rightarrow> StatusBody" where
  "statusRoute c =
     \<lparr>status = ''ok'', ready = True, service = ''IFC to Fragments Converter'',
      version = ''1.0.0''\<rparr>"

subsection \<open>The process: start, serving, shutdown\<close>

text \<open>
  The entry point \<^verbatim>\<open>startServer\<close>. It initializes the converter and only then
  listens; when \<^verbatim>\<open>initialize\<close> throws it prints the error and exits with code 1
  without listening. \<^verbatim>\<open>shutdown\<close>, which the handlers registered after
  \<^verbatim>\<open>listen\<close> call, closes the server; the callback of \<^verbatim>\<open>server.close\<close>, run once
  every connection has ended, calls \<^verbatim>\<open>cleanup\<close> and exits with code 0; a timer
  exits with code 1 after ten seconds. While closing, requests on connections that are
  still open are answered.
\<close>

datatype phase = NotStarted | Listening | Closing | Exited int

record server =
  srv_phase :: phase
  srv_world :: world








subsection \<open>A test double of the engine and a sample request\<close>

text \<open>
  Concrete instances on which the theorems below are exercised: the engine as the
  integration tests mock it (an empty configuration, \<^verbatim>\<open>process\<close> resolving to five
  bytes), sample class identifiers, and one staged upload of \<^verbatim>\<open>sample.ifc\<close>.
\<close>

definition mockImporter :: IfcImporter where
  "mockImporter =
     \<lparr>wasm_path = [], wasm_absolute = False, webIfcSettings = Map.empty,
      includeUniqueAttributes = False, includeRelationNames = False,
      classes_abstract = {}, relations = Map.empty\<rparr>"

definition sampleWEBIFC :: WEBIFC where
  "sampleWEBIFC =
     \<lparr>IFCPROPERTYSET = 1, IFCPROPERTYSINGLEVALUE = 2, IFCPROPERTYLISTVALUE = 3,
      IFCPROPERTYENUMERATEDVALUE = 4, IFCPROPERTYBOUNDEDVALUE = 5, IFCPROPERTYTABLEVALUE = 6,
      IFCPROPERTYREFERENCEVALUE = 7, IFCPROPERTYSETDEFINITION = 8, IFCPROPERTYDEFINITION = 9,
      IFCPROPERTY = 10, IFCELEMENTQUANTITY = 11, IFCQUANTITYLENGTH = 12, IFCQUANTITYAREA = 13,
      IFCQUANTITYVOLUME = 14, IFCQUANTITYWEIGHT = 15, IFCQUANTITYCOUNT = 16,
      IFCRELDEFINESBYPROPERTIES = 17\<rparr>"

definition mockEnv :: env where
  "mockEnv =
     \<lparr>newIfcImporter = Inr mockImporter,
      process = (\<lambda>imp bytes. Inr [1, 2, 3, 4, 5]),
      now = ''2025-01-15T14:30:00.000Z'',
      trace = ''Error at convert'',
      fsErrorMessage = (\<lambda>code p. code @ '': '' @ p),
      runtimeErrorMessage = (\<lambda>kind. ''TypeError: '' @ kind),
      webifc = sampleWEBIFC\<rparr>"

definition readyImporter :: IfcImporter where
  "readyImporter = configure sampleWEBIFC ''./node_modules/web-ifc/'' mockImporter"

definition readyConverter :: IfcToFragmentsConverter where
  "readyConverter = snd (initialize mockEnv ifcConverter0)"

definition noOptions :: ConversionOptions where
  "noOptions = \<lparr>coordinateToOrigin = None, opt_name = None, excludedCategories = None,
                 includeProperties = None\<rparr>"


definition samplePath :: string where
  "samplePath = ''uploads/1736951400000-123456789-sample.ifc''"

definition sampleFile :: Multer_File where
  "sampleFile =
     \<lparr>fieldname = ''ifc'', originalname = ''sample.ifc'',
      mimetype = ''application/octet-stream'', file_path = samplePath, file_size = 3\<rparr>"

definition readyWorld :: world where
  "readyWorld =
     \<lparr>ifcConverter = readyConverter,
      files = [samplePath \<mapsto> [73, 70, 67]],
      unlinkFaults = Map.empty,
      console = []\<rparr>"


definition sampleRequest :: "(string \<rightharpoonup> formValue) \<Rightarrow> Request" where
  "sampleRequest flds = \<lparr>req_file = Some sampleFile, req_body = flds\<rparr>"

text \<open>The result of the mocked conversion under given options, and the world after it.\<close>

definition mockResult :: "ConversionOptions \<Rightarrow> ConversionResult" where
  "mockResult options =
     \<lparr>data = [1, 2, 3, 4, 5],
      metadata = \<lparr>meta_name = opt_name options, timestamp = ''2025-01-15T14:30:00.000Z'',
                  meta_size = 5, meta_options = options\<rparr>\<rparr>"

definition namedOptions :: "string \<Rightarrow> bool \<Rightarrow> ConversionOptions" where
  "namedOptions n b =
     \<lparr>coordinateToOrigin = Some b, opt_name = Some (Str n), excludedCategories = None,
      includeProperties = None\<rparr>"

definition mockHeaders :: "string \<Rightarrow> bool \<Rightarrow> Headers" where
  "mockHeaders n b = successHeaders (disposition n) (mockResult (namedOptions n b))"


text \<open>Further instances: an upload whose extension is in upper case, a world in which
  the staged file cannot be unlinked, a world whose converter was never initialized, and
  the error of the upload library for a file over the limit.\<close>

definition faultyWorld :: world where
  "faultyWorld = readyWorld\<lparr>unlinkFaults := [samplePath \<mapsto> EACCES]\<rparr>"

definition uninitializedWorld :: world where
  "uninitializedWorld = readyWorld\<lparr>ifcConverter := ifcConverter0\<rparr>"

definition upperCaseFile :: Multer_File where
  "upperCaseFile = sampleFile\<lparr>originalname := ''MODEL.IFC''\<rparr>"

definition tooLarge :: AppError where
  "tooLarge = MulterError ''MulterError: File too large'' ''LIMIT_FILE_SIZE'' ''File too large''"

section \<open>Properties of the converter service\<close>

lemma convert_None:
  "ifcImporter c = None \<Longrightarrow>
     convert e c ifcData options = (Inl (JsError (trace e) notInitializedMessage), c)"
  by (simp add: convert_def)

text \<open>
  Claim C4. Whatever the input bytes and the options, \<open>convert\<close> on a converter without
  an engine handle (never initialized, or after \<open>cleanup\<close>) fails with the
  not-initialized error, and returns the converter as it was: the handle, the path
  and the record of engine calls are unchanged.
\<close>

theorem convert_uninitialized:
  "(ifcImporter c = None \<longrightarrow>
      convert e c ifcData options = (Inl (JsError (trace e) notInitializedMessage), c))
   \<and> convert e (newConverter wp) ifcData options
       = (Inl (JsError (trace e) notInitializedMessage), newConverter wp)
   \<and> convert e (cleanup c) ifcData options
       = (Inl (JsError (trace e) notInitializedMessage), cleanup c)"
  by (simp add: convert_None newConverter_def cleanup_def)

theorem convert_uninitialized_witness:
  "ifcImporter ifcConverter0 = None
   \<and> fst (convert mockEnv ifcConverter0 [73, 70, 67] \<lparr>coordinateToOrigin = Some False,
        opt_name = None, excludedCategories = None, includeProperties = None\<rparr>)
       = Inl (JsError ''Error at convert'' notInitializedMessage)
   \<and> engineCalls (snd (convert mockEnv ifcConverter0 [73, 70, 67] \<lparr>coordinateToOrigin = Some False,
        opt_name = None, excludedCategories = None, includeProperties = None\<rparr>)) = []"
  using convert_uninitialized [of ifcConverter0 mockEnv "[73, 70, 67]"
      "\<lparr>coordinateToOrigin = Some False, opt_name = None, excludedCategories = None,
        includeProperties = None\<rparr>"]
  by (simp add: ifcConverter0_def newConverter_def mockEnv_def)

lemma convert_Some_error:
  assumes "ifcImporter c = Some imp" and "fst (convert e c d opts) = Inl err"
  shows "\<exists>msg. err_message err = ''Failed to convert IFC to Fragments: '' @ msg"
  using assms by (auto simp: convert_def Let_def JsError_def split: sum.splits option.splits)

lemma initialize_result:
  "fst (initialize e c) = Inr () \<Longrightarrow>
     \<exists>fresh. newIfcImporter e = Inr fresh
       \<and> snd (initialize e c) = c\<lparr>ifcImporter := Some (configure (webifc e) (wasmPath c) fresh)\<rparr>"
  by (auto simp: initialize_def split: sum.splits)

text \<open>
  Claim C5. From any state, \<open>cleanup\<close> followed by an \<open>initialize\<close> that does not raise
  leaves the converter with an engine handle, and no later \<open>convert\<close> fails with the
  not-initialized error. \<open>initialize\<close> succeeds whenever the engine's constructor
  returns. \<open>cleanup\<close> on a converter without a handle changes nothing, and \<open>cleanup\<close>
  may be repeated.
\<close>

theorem cleanup_then_initialize:
  "(fst (initialize e (cleanup c)) = Inr () \<longrightarrow>
      ifcImporter (snd (initialize e (cleanup c))) \<noteq> None
      \<and> (\<forall>e' d opts err. fst (convert e' (snd (initialize e (cleanup c))) d opts) = Inl err
            \<longrightarrow> err_message err \<noteq> notInitializedMessage))
   \<and> ((\<exists>fresh. newIfcImporter e = Inr fresh) \<longrightarrow> fst (initialize e (cleanup c)) = Inr ())
   \<and> (ifcImporter c = None \<longrightarrow> cleanup c = c)
   \<and> ifcImporter (cleanup c) = None
   \<and> cleanup (cleanup c) = cleanup c"
proof (intro conjI impI allI)
  assume ok: "fst (initialize e (cleanup c)) = Inr ()"
  then obtain fresh where
    s: "snd (initialize e (cleanup c))
          = (cleanup c)\<lparr>ifcImporter := Some (configure (webifc e) (wasmPath (cleanup c)) fresh)\<rparr>"
    using initialize_result by blast
  show "ifcImporter (snd (initialize e (cleanup c))) \<noteq> None"
    by (simp add: s)
  fix e' d opts err
  assume "fst (convert e' (snd (initialize e (cleanup c))) d opts) = Inl err"
  then obtain msg where "err_message err = ''Failed to convert IFC to Fragments: '' @ msg"
    using convert_Some_error [of "snd (initialize e (cleanup c))" _ e' d opts err]
    by (auto simp: s)
  then show "err_message err \<noteq> notInitializedMessage"
    by (simp add: notInitializedMessage_def)
next
  assume "\<exists>fresh. newIfcImporter e = Inr fresh"
  then show "fst (initialize e (cleanup c)) = Inr ()"
    by (auto simp: initialize_def)
next
  assume "ifcImporter c = None"
  then show "cleanup c = c" by (simp add: cleanup_def)
next
  show "ifcImporter (cleanup c) = None" by (simp add: cleanup_def)
next
  show "cleanup (cleanup c) = cleanup c" by (simp add: cleanup_def)
qed

text \<open>
  Claim C10. On an initialized converter, \<open>convert\<close> with \<open>coordinateToOrigin\<close>
  undefined leaves the engine instance, and so its \<open>webIfcSettings\<close>, as it was; with
  \<open>coordinateToOrigin\<close> defined it overrides the entry \<^verbatim>\<open>COORDINATE_TO_ORIGIN\<close> and
  nothing else; and the instance changes only if \<open>coordinateToOrigin\<close> is defined.
\<close>

theorem convert_settings_frame:
  "(ifcImporter c = Some imp \<and> coordinateToOrigin opts = None \<longrightarrow>
      ifcImporter (snd (convert e c d opts)) = Some imp)
   \<and> (ifcImporter c = Some imp \<and> coordinateToOrigin opts = Some b \<longrightarrow>
      ifcImporter (snd (convert e c d opts))
        = Some (imp\<lparr>webIfcSettings :=
                  (webIfcSettings imp)(''COORDINATE_TO_ORIGIN'' \<mapsto> SBool b)\<rparr>))
   \<and> (ifcImporter c = Some imp \<and> ifcImporter (snd (convert e c d opts)) \<noteq> Some imp \<longrightarrow>
      coordinateToOrigin opts \<noteq> None)"
  by (auto simp: convert_def Let_def split: sum.splits option.splits)


lemma readyConverter_simp:
  "readyConverter = \<lparr>ifcImporter = Some readyImporter, wasmPath = ''./node_modules/web-ifc/'',
                      engineCalls = []\<rparr>"
  by (simp add: readyConverter_def readyImporter_def initialize_def mockEnv_def
      ifcConverter0_def newConverter_def)

lemma readyImporter_settings:
  "webIfcSettings readyImporter = [''COORDINATE_TO_ORIGIN'' \<mapsto> SBool True]"
  by (simp add: readyImporter_def configure_def Let_def)

theorem cleanup_then_initialize_witness:
  "fst (initialize mockEnv (cleanup readyConverter)) = Inr ()
   \<and> ifcImporter (snd (initialize mockEnv (cleanup readyConverter))) \<noteq> None
   \<and> fst (convert mockEnv (snd (initialize mockEnv (cleanup readyConverter)))
              [73, 70, 67] noOptions)
       \<noteq> Inl (JsError (trace mockEnv) notInitializedMessage)
   \<and> ifcImporter ifcConverter0 = None \<and> cleanup ifcConverter0 = ifcConverter0"
proof -
  have h0: "err_message (JsError (trace mockEnv) notInitializedMessage) = notInitializedMessage"
    by (simp add: JsError_def)
  have h1: "fst (initialize mockEnv (cleanup readyConverter)) = Inr ()"
    by (simp add: initialize_def mockEnv_def)
  have h2: "ifcImporter ifcConverter0 = None"
    by (simp add: ifcConverter0_def newConverter_def)
  show ?thesis
    using h0 h1 h2 cleanup_then_initialize [of mockEnv readyConverter]
      cleanup_then_initialize [of mockEnv ifcConverter0]
    by blast
qed

theorem convert_settings_frame_witness:
  "ifcImporter readyConverter = Some readyImporter
   \<and> coordinateToOrigin noOptions = None
   \<and> ifcImporter (snd (convert mockEnv readyConverter [73, 70, 67] noOptions))
       = Some readyImporter
   \<and> coordinateToOrigin (noOptions\<lparr>coordinateToOrigin := Some False\<rparr>) = Some False
   \<and> ifcImporter (snd (convert mockEnv readyConverter [73, 70, 67]
         (noOptions\<lparr>coordinateToOrigin := Some False\<rparr>)))
       = Some (readyImporter\<lparr>webIfcSettings :=
                 (webIfcSettings readyImporter)(''COORDINATE_TO_ORIGIN'' \<mapsto> SBool False)\<rparr>)
   \<and> ifcImporter (snd (convert mockEnv readyConverter [73, 70, 67]
         (noOptions\<lparr>coordinateToOrigin := Some False\<rparr>))) \<noteq> Some readyImporter"
proof -
  have h1: "ifcImporter readyConverter = Some readyImporter"
    by (simp add: readyConverter_simp)
  have h2: "coordinateToOrigin noOptions = None"
    by (simp add: noOptions_def)
  have h3: "coordinateToOrigin (noOptions\<lparr>coordinateToOrigin := Some False\<rparr>) = Some False"
    by simp
  have "webIfcSettings (readyImporter\<lparr>webIfcSettings :=
          (webIfcSettings readyImporter)(''COORDINATE_TO_ORIGIN'' \<mapsto> SBool False)\<rparr>)
            ''COORDINATE_TO_ORIGIN''
        \<noteq> webIfcSettings readyImporter ''COORDINATE_TO_ORIGIN''"
    by (simp add: readyImporter_settings)
  then have h4: "readyImporter\<lparr>webIfcSettings :=
          (webIfcSettings readyImporter)(''COORDINATE_TO_ORIGIN'' \<mapsto> SBool False)\<rparr>
        \<noteq> readyImporter"
    by metis
  show ?thesis
    using h1 h2 h3 h4
      convert_settings_frame [of readyConverter readyImporter noOptions mockEnv "[73, 70, 67]" False]
      convert_settings_frame [of readyConverter readyImporter
        "noOptions\<lparr>coordinateToOrigin := Some False\<rparr>" mockEnv "[73, 70, 67]" False]
    by simp
qed

section \<open>Properties of the file utilities and the routes\<close>

lemma next_error_fs:
  "files (snd (next_error m err w)) = files w"
  "unlinkFaults (snd (next_error m err w)) = unlinkFaults w"
  by (simp_all add: next_error_def split: prod.splits)

lemma next_error_Json: "\<exists>r. fst (next_error m err w) = Json r"
  by (simp add: next_error_def split: prod.splits)


lemma readAndConvert_fs:
  "files (snd (readAndConvert e m opts p w)) = files w"
  "unlinkFaults (snd (readAndConvert e m opts p w)) = unlinkFaults w"
  by (simp_all add: readAndConvert_def next_error_fs split: sum.splits prod.splits)

lemma setHeaders_Inr:
  assumes "setHeaders e opts result = Inr h"
  shows "\<exists>n. templateString (opt_name opts) = Some n \<and> list_all validHeaderChar (disposition n)
           \<and> h = successHeaders (disposition n) result"
  using assms by (auto simp: setHeaders_def split: option.splits if_splits)

lemma readAndConvert_Binary:
  assumes "fst (readAndConvert e m opts p w) = Binary h body"
  shows "\<exists>ifcData result. files w p = Some ifcData
           \<and> fst (convert e (ifcConverter w) ifcData opts) = Inr result
           \<and> setHeaders e opts result = Inr h \<and> body = data result"
proof (cases "files w p")
  case None
  then show ?thesis
    using assms next_error_Json [of m "fsError e ''ENOENT'' p" w]
    by (auto simp: readAndConvert_def readFileAsUint8Array_def)
next
  case (Some ifcData)
  obtain r c' where rc: "convert e (ifcConverter w) ifcData opts = (r, c')"
    by (cases "convert e (ifcConverter w) ifcData opts")
  show ?thesis
  proof (cases r)
    case (Inl err)
    then show ?thesis
      using assms Some rc next_error_Json [of m err "w\<lparr>ifcConverter := c'\<rparr>"]
      by (auto simp: readAndConvert_def readFileAsUint8Array_def)
  next
    case (Inr result)
    show ?thesis
    proof (cases "setHeaders e opts result")
      case (Inl err)
      then show ?thesis
        using assms Some rc Inr next_error_Json [of m err "w\<lparr>ifcConverter := c'\<rparr>"]
        by (auto simp: readAndConvert_def readFileAsUint8Array_def)
    next
      case (Inr headers)
      then show ?thesis
        using assms Some rc \<open>r = Inr result\<close>
        by (auto simp: readAndConvert_def readFileAsUint8Array_def)
    qed
  qed
qed

lemma convert_Inr_metadata:
  assumes "fst (convert e c d opts) = Inr result"
  shows "meta_name (metadata result) = opt_name opts \<and> meta_options (metadata result) = opts
         \<and> meta_size (metadata result) = length (data result) \<and> timestamp (metadata result) = now e"
  using assms by (auto simp: convert_def Let_def split: option.splits sum.splits)

lemma deleteTempFile_absent:
  "unlinkFaults w p = None \<Longrightarrow> files (deleteTempFile w p) p = None"
  by (simp add: deleteTempFile_def unlink_def split: option.splits)

lemma deleteTempFile_faulty:
  "unlinkFaults w p = Some code \<Longrightarrow> files (deleteTempFile w p) = files w"
  by (simp add: deleteTempFile_def unlink_def split: option.splits)

lemma deleteTempFile_others:
  "q \<noteq> p \<Longrightarrow> files (deleteTempFile w p) q = files w q"
  by (simp add: deleteTempFile_def unlink_def split: option.splits)

lemma replaceFirst_stem:
  "(\<forall>i<length stem. take 4 (drop i (stem @ ''.ifc'')) \<noteq> ''.ifc'')
     \<Longrightarrow> replaceFirst ''.ifc'' [] (stem @ ''.ifc'') = stem"
proof (induction stem)
  case Nil
  show ?case by simp
next
  case (Cons c cs)
  have len: "length ''.ifc'' = (4::nat)" by simp
  have "take 4 (drop 0 ((c # cs) @ ''.ifc'')) \<noteq> ''.ifc''"
    using Cons.prems by blast
  then have hd: "take 4 (c # (cs @ ''.ifc'')) \<noteq> ''.ifc''" by simp
  have "\<forall>i<length cs. take 4 (drop i (cs @ ''.ifc'')) \<noteq> ''.ifc''"
  proof (intro allI impI)
    fix i assume "i < length cs"
    then have "Suc i < length (c # cs)" by simp
    then have "take 4 (drop (Suc i) ((c # cs) @ ''.ifc'')) \<noteq> ''.ifc''"
      using Cons.prems by blast
    then show "take 4 (drop i (cs @ ''.ifc'')) \<noteq> ''.ifc''" by simp
  qed
  then have ih: "replaceFirst ''.ifc'' [] (cs @ ''.ifc'') = cs"
    by (rule Cons.IH)
  have "replaceFirst ''.ifc'' [] ((c # cs) @ ''.ifc'')
          = c # replaceFirst ''.ifc'' [] (cs @ ''.ifc'')"
    using hd by (simp only: append_Cons replaceFirst.simps len if_False)
  then show ?case by (simp only: ih)
qed

lemma convert_mock:
  "fst (convert mockEnv readyConverter d opts) = Inr (mockResult opts)"
  by (simp add: convert_def readyConverter_simp Let_def mockEnv_def mockResult_def
      split: option.splits)

lemma valid_names:
  "list_all validHeaderChar (disposition ''sample'')"
  "list_all validHeaderChar (disposition ''Acme'')"
  "list_all validHeaderChar (disposition [])"
  by (simp_all add: disposition_def validHeaderChar_def)

lemma setHeaders_named:
  assumes "list_all validHeaderChar (disposition n)"
  shows "setHeaders e (namedOptions n b) (mockResult (namedOptions n b)) = Inr (mockHeaders n b)"
  using assms by (simp add: setHeaders_def templateString_def namedOptions_def mockHeaders_def)

lemma readAndConvert_mock:
  assumes "files w samplePath = Some d" and "ifcConverter w = readyConverter"
    and "list_all validHeaderChar (disposition n)"
  shows "fst (readAndConvert mockEnv m (namedOptions n b) samplePath w)
           = Binary (mockHeaders n b) [1, 2, 3, 4, 5]"
proof -
  obtain r c' where rc: "convert mockEnv readyConverter d (namedOptions n b) = (r, c')"
    by (cases "convert mockEnv readyConverter d (namedOptions n b)")
  then have "r = Inr (mockResult (namedOptions n b))"
    using convert_mock [of d "namedOptions n b"] by simp
  then show ?thesis
    using assms(1,2) rc setHeaders_named [OF assms(3), of mockEnv b]
    by (simp add: readAndConvert_def readFileAsUint8Array_def mockResult_def)
qed

lemma sample_facts:
  "files readyWorld samplePath = Some [73, 70, 67]"
  "ifcConverter readyWorld = readyConverter"
  "unlinkFaults readyWorld samplePath = None"
  "files faultyWorld samplePath = Some [73, 70, 67]"
  "ifcConverter faultyWorld = readyConverter"
  "unlinkFaults faultyWorld samplePath = Some EACCES"
  "file_path sampleFile = samplePath"
  "samplePath \<noteq> []"
  "req_file (sampleRequest flds) = Some sampleFile"
  "req_body (sampleRequest flds) = flds"
  by (simp_all add: readyWorld_def faultyWorld_def sampleFile_def samplePath_def
      sampleRequest_def)

lemma convertRouteA_mock:
  assumes "files w samplePath = Some d" and "ifcConverter w = readyConverter"
    and "optionsA (sampleRequest flds) sampleFile = namedOptions n b"
    and "list_all validHeaderChar (disposition n)"
  shows "fst (convertRouteA mockEnv m (sampleRequest flds) w)
           = Binary (mockHeaders n b) [1, 2, 3, 4, 5]"
  using readAndConvert_mock [OF assms(1,2,4), of m b] assms(3)
  by (simp add: convertRouteA_def case_prod_beta sample_facts)

lemma convertRouteB_mock:
  assumes "files w samplePath = Some d" and "ifcConverter w = readyConverter"
    and "optionsB (sampleRequest flds) sampleFile = namedOptions n b"
    and "list_all validHeaderChar (disposition n)"
  shows "fst (convertRouteB mockEnv m (sampleRequest flds) w)
           = Binary (mockHeaders n b) [1, 2, 3, 4, 5]"
  using readAndConvert_mock [OF assms(1,2,4), of m b] assms(3)
  by (simp add: convertRouteB_def case_prod_beta sample_facts)

lemma convertRouteA_Binary:
  assumes "fst (convertRouteA e m req w) = Binary h body"
  shows "\<exists>file ifcData result. req_file req = Some file \<and> files w (file_path file) = Some ifcData
           \<and> fst (convert e (ifcConverter w) ifcData (optionsA req file)) = Inr result
           \<and> setHeaders e (optionsA req file) result = Inr h \<and> body = data result"
proof (cases "req_file req")
  case None
  then show ?thesis
    using assms next_error_Json [of m "ApiError (trace e) noFileMessage 400" w]
    by (auto simp: convertRouteA_def)
next
  case (Some f)
  then have "fst (readAndConvert e m (optionsA req f) (file_path f) w) = Binary h body"
    using assms by (simp add: convertRouteA_def case_prod_beta)
  then show ?thesis
    using Some readAndConvert_Binary by blast
qed

text \<open>
  Claim C6. The options the route derives have \<open>coordinateToOrigin\<close> true exactly when
  the form field \<^verbatim>\<open>coordinateToOrigin\<close> is not the string \<^verbatim>\<open>false\<close>; an absent field
  gives true; and in every successful answer the options nested in the metadata header
  carry that same boolean.
\<close>

theorem coordinateToOrigin_derivation:
  "coordinateToOrigin (optionsA req file)
     = Some (req_body req ''coordinateToOrigin'' \<noteq> Some (Str ''false''))
   \<and> (req_body req ''coordinateToOrigin'' = None \<longrightarrow>
        coordinateToOrigin (optionsA req file) = Some True)
   \<and> (fst (convertRouteA e m req w) = Binary h body \<longrightarrow>
        coordinateToOrigin (meta_options (xFragmentsMetadata h))
          = Some (req_body req ''coordinateToOrigin'' \<noteq> Some (Str ''false'')))"
proof (intro conjI impI)
  show "coordinateToOrigin (optionsA req file)
     = Some (req_body req ''coordinateToOrigin'' \<noteq> Some (Str ''false''))"
    by (simp add: optionsA_def)
  show "coordinateToOrigin (optionsA req file) = Some True"
    if "req_body req ''coordinateToOrigin'' = None"
    using that by (simp add: optionsA_def)
  assume "fst (convertRouteA e m req w) = Binary h body"
  then obtain f d result where
    r: "fst (convert e (ifcConverter w) d (optionsA req f)) = Inr result"
    and sh: "setHeaders e (optionsA req f) result = Inr h"
    using convertRouteA_Binary by blast
  obtain n where h: "h = successHeaders (disposition n) result"
    using setHeaders_Inr [OF sh] by blast
  have "meta_options (metadata result) = optionsA req f"
    using convert_Inr_metadata [OF r] by simp
  then show "coordinateToOrigin (meta_options (xFragmentsMetadata h))
          = Some (req_body req ''coordinateToOrigin'' \<noteq> Some (Str ''false''))"
    by (simp add: h successHeaders_def optionsA_def)
qed

theorem coordinateToOrigin_derivation_witness:
  "req_body (sampleRequest Map.empty) ''coordinateToOrigin'' = None
   \<and> coordinateToOrigin (optionsA (sampleRequest Map.empty) sampleFile) = Some True
   \<and> fst (convertRouteA mockEnv (Some ''test'')
            (sampleRequest [''coordinateToOrigin'' \<mapsto> Str ''false'']) readyWorld)
       = Binary (mockHeaders ''sample'' False) [1, 2, 3, 4, 5]
   \<and> coordinateToOrigin (meta_options (xFragmentsMetadata
         (mockHeaders ''sample'' False))) = Some False"
proof -
  have o: "optionsA (sampleRequest [''coordinateToOrigin'' \<mapsto> Str ''false'']) sampleFile
             = namedOptions ''sample'' False"
    by (simp add: optionsA_def sampleRequest_def sampleFile_def namedOptions_def)
  have r: "fst (convertRouteA mockEnv (Some ''test'')
            (sampleRequest [''coordinateToOrigin'' \<mapsto> Str ''false'']) readyWorld)
       = Binary (mockHeaders ''sample'' False) [1, 2, 3, 4, 5]"
    using convertRouteA_mock [OF sample_facts(1) sample_facts(2) o valid_names(1)] .
  have n: "req_body (sampleRequest Map.empty) ''coordinateToOrigin'' = None"
    by (simp add: sampleRequest_def)
  show ?thesis
    using n r
      coordinateToOrigin_derivation [of "sampleRequest Map.empty" sampleFile]
      coordinateToOrigin_derivation [of
        "sampleRequest [''coordinateToOrigin'' \<mapsto> Str ''false'']" sampleFile mockEnv
        "Some ''test''" readyWorld
        "mockHeaders ''sample'' False"
        "[1, 2, 3, 4, 5]"]
    by (simp add: sampleRequest_def)
qed

text \<open>
  Claim C7, amended. The name is the \<^verbatim>\<open>name\<close> field when that field is truthy (for a
  string: not empty). Otherwise, for an original filename \<open>stem @ ''.ifc''\<close> in lower
  case in which \<^verbatim>\<open>.ifc\<close> does not occur earlier, the name is \<open>stem\<close>. In every
  successful answer the \<^verbatim>\<open>Content-Disposition\<close> header is
  \<^verbatim>\<open>attachment; filename="<name>.frag"\<close> and the metadata's name is that name.
\<close>

theorem name_derivation:
  "(truthy (req_body req ''name'') \<longrightarrow> opt_name (optionsA req file) = req_body req ''name'')
   \<and> (req_body req ''name'' = Some (Str s) \<and> s \<noteq> [] \<longrightarrow>
        opt_name (optionsA req file) = Some (Str s))
   \<and> (\<not> truthy (req_body req ''name'') \<and> originalname file = stem @ ''.ifc''
        \<and> (\<forall>i<length stem. take 4 (drop i (stem @ ''.ifc'')) \<noteq> ''.ifc'') \<longrightarrow>
        opt_name (optionsA req file) = Some (Str stem))
   \<and> (req_file req = Some file \<and> fst (convertRouteA e m req w) = Binary h body \<longrightarrow>
        (\<exists>n t. opt_name (optionsA req file) = Some n \<and> toStringJS n = Some t
           \<and> contentDisposition h
               = ''attachment; filename='' @ [CHR 0x22] @ t @ ''.frag'' @ [CHR 0x22]
           \<and> meta_name (xFragmentsMetadata h) = Some n))"
proof (intro conjI impI)
  show "opt_name (optionsA req file) = req_body req ''name''"
    if "truthy (req_body req ''name'')"
    using that by (simp add: optionsA_def)
  show "opt_name (optionsA req file) = Some (Str s)"
    if "req_body req ''name'' = Some (Str s) \<and> s \<noteq> []"
    using that by (simp add: optionsA_def)
  show "opt_name (optionsA req file) = Some (Str stem)"
    if "\<not> truthy (req_body req ''name'') \<and> originalname file = stem @ ''.ifc''
        \<and> (\<forall>i<length stem. take 4 (drop i (stem @ ''.ifc'')) \<noteq> ''.ifc'')"
    using that replaceFirst_stem [of stem] by (simp add: optionsA_def)
  assume a: "req_file req = Some file \<and> fst (convertRouteA e m req w) = Binary h body"
  then obtain d result where
    r: "fst (convert e (ifcConverter w) d (optionsA req file)) = Inr result"
    and sh: "setHeaders e (optionsA req file) result = Inr h"
    using convertRouteA_Binary [of e m req w h body] by auto
  obtain t where t: "templateString (opt_name (optionsA req file)) = Some t"
    and h: "h = successHeaders (disposition t) result"
    using setHeaders_Inr [OF sh] by blast
  have "opt_name (optionsA req file) \<noteq> None"
    by (cases "req_body req ''name''") (simp_all add: optionsA_def)
  then obtain n where n: "opt_name (optionsA req file) = Some n"
    by blast
  have c: "toStringJS n = Some t"
    using t n by (simp add: templateString_def)
  have "meta_name (metadata result) = Some n"
    using convert_Inr_metadata [OF r] n by simp
  then show "\<exists>n t. opt_name (optionsA req file) = Some n \<and> toStringJS n = Some t
           \<and> contentDisposition h
               = ''attachment; filename='' @ [CHR 0x22] @ t @ ''.frag'' @ [CHR 0x22]
           \<and> meta_name (xFragmentsMetadata h) = Some n"
    using n c by (simp add: h successHeaders_def disposition_def)
qed

lemma options_Acme:
  "optionsA (sampleRequest [''name'' \<mapsto> Str ''Acme'']) sampleFile = namedOptions ''Acme'' True"
  by (simp add: optionsA_def sampleRequest_def sampleFile_def namedOptions_def)

lemma options_absent:
  "optionsA (sampleRequest Map.empty) sampleFile = namedOptions ''sample'' True"
  by (simp add: optionsA_def sampleRequest_def sampleFile_def namedOptions_def)

theorem name_derivation_witness:
  "truthy (req_body (sampleRequest [''name'' \<mapsto> Str ''Acme'']) ''name'')
   \<and> opt_name (optionsA (sampleRequest [''name'' \<mapsto> Str ''Acme'']) sampleFile)
       = Some (Str ''Acme'')
   \<and> \<not> truthy (req_body (sampleRequest Map.empty) ''name'')
   \<and> originalname sampleFile = ''sample'' @ ''.ifc''
   \<and> opt_name (optionsA (sampleRequest Map.empty) sampleFile) = Some (Str ''sample'')
   \<and> fst (convertRouteA mockEnv (Some ''test'') (sampleRequest [''name'' \<mapsto> Str ''Acme''])
            readyWorld)
       = Binary (mockHeaders ''Acme'' True)
           [1, 2, 3, 4, 5]
   \<and> contentDisposition (mockHeaders ''Acme'' True)
       = ''attachment; filename='' @ [CHR 0x22] @ ''Acme.frag'' @ [CHR 0x22]
   \<and> meta_name (xFragmentsMetadata (mockHeaders ''Acme'' True)) = Some (Str ''Acme'')"
proof -
  have t: "truthy (req_body (sampleRequest [''name'' \<mapsto> Str ''Acme'']) ''name'')"
    by (simp add: sampleRequest_def)
  have a: "req_body (sampleRequest [''name'' \<mapsto> Str ''Acme'']) ''name'' = Some (Str ''Acme'')"
    by (simp add: sampleRequest_def)
  have f: "\<not> truthy (req_body (sampleRequest Map.empty) ''name'')"
    by (simp add: sampleRequest_def)
  have o: "originalname sampleFile = ''sample'' @ ''.ifc''"
    by (simp add: sampleFile_def)
  have st: "\<forall>i<length ''sample''. take 4 (drop i (''sample'' @ ''.ifc'')) \<noteq> ''.ifc''"
    by (simp add: less_Suc_eq)
  have r: "fst (convertRouteA mockEnv (Some ''test'') (sampleRequest [''name'' \<mapsto> Str ''Acme''])
            readyWorld)
       = Binary (mockHeaders ''Acme'' True)
           [1, 2, 3, 4, 5]"
    using convertRouteA_mock [OF sample_facts(1) sample_facts(2) options_Acme valid_names(2)] .
  have n1: "opt_name (optionsA (sampleRequest [''name'' \<mapsto> Str ''Acme'']) sampleFile)
       = Some (Str ''Acme'')"
    using t a name_derivation [of "sampleRequest [''name'' \<mapsto> Str ''Acme'']" sampleFile]
    by simp
  have n2: "opt_name (optionsA (sampleRequest Map.empty) sampleFile) = Some (Str ''sample'')"
    using f o st name_derivation [of "sampleRequest Map.empty" sampleFile _ "''sample''"]
    by blast
  have "\<exists>n t. opt_name (optionsA (sampleRequest [''name'' \<mapsto> Str ''Acme'']) sampleFile) = Some n
           \<and> toStringJS n = Some t
           \<and> contentDisposition (mockHeaders ''Acme'' True)
               = ''attachment; filename='' @ [CHR 0x22] @ t @ ''.frag'' @ [CHR 0x22]
           \<and> meta_name (xFragmentsMetadata (mockHeaders ''Acme'' True)) = Some n"
    using r sample_facts(9)
      name_derivation [of "sampleRequest [''name'' \<mapsto> Str ''Acme'']" sampleFile _ _ mockEnv
        "Some ''test''" readyWorld
        "mockHeaders ''Acme'' True"
        "[1, 2, 3, 4, 5]"]
    by blast
  then have hd: "contentDisposition (mockHeaders ''Acme'' True)
       = ''attachment; filename='' @ [CHR 0x22] @ ''Acme.frag'' @ [CHR 0x22]
     \<and> meta_name (xFragmentsMetadata (mockHeaders ''Acme'' True)) = Some (Str ''Acme'')"
    using n1 by auto
  show ?thesis
    using t n1 f o n2 r hd by blast
qed

text \<open>
  Claim C7 as stated fails twice: an empty \<^verbatim>\<open>name\<close> field is present but not used
  (the filename's stem is), and \<^verbatim>\<open>MODEL.IFC\<close>, which the file filter accepts, keeps
  its extension, since \<^verbatim>\<open>replace(".ifc", "")\<close> is case-sensitive.
\<close>

theorem name_derivation_counterexample:
  "req_body (sampleRequest [''name'' \<mapsto> Str []]) ''name'' = Some (Str [])
   \<and> opt_name (optionsA (sampleRequest [''name'' \<mapsto> Str []]) sampleFile) = Some (Str ''sample'')
   \<and> fileFilter ''st'' upperCaseFile = None
   \<and> req_body (sampleRequest Map.empty) ''name'' = None
   \<and> opt_name (optionsA (sampleRequest Map.empty) upperCaseFile) = Some (Str ''MODEL.IFC'')
   \<and> setHeaders mockEnv (optionsA (sampleRequest Map.empty) upperCaseFile)
         (mockResult (optionsA (sampleRequest Map.empty) upperCaseFile))
       = Inr (mockHeaders ''MODEL.IFC'' True)
   \<and> contentDisposition (mockHeaders ''MODEL.IFC'' True)
       = ''attachment; filename='' @ [CHR 0x22] @ ''MODEL.IFC.frag'' @ [CHR 0x22]"
  by (simp add: optionsA_def sampleRequest_def sampleFile_def upperCaseFile_def fileFilter_def
      endsWith_def toLowerCase_def toLowerChar_def successHeaders_def setHeaders_def
      templateString_def disposition_def validHeaderChar_def mockHeaders_def namedOptions_def)

lemma options_agree:
  assumes "req_body req ''name'' = None \<or> (\<exists>s. s \<noteq> [] \<and> req_body req ''name'' = Some (Str s))"
  shows "optionsA req f = optionsB req f"
  using assms by (auto simp: optionsA_def optionsB_def)

text \<open>
  Claim C9, amended. The two variants of the route give the same answer and the same
  final world for every request without a file, and for every request whose \<^verbatim>\<open>name\<close>
  field is absent or a non-empty string.
\<close>

theorem variants_agree:
  assumes "req_file req = None \<or> req_body req ''name'' = None
           \<or> (\<exists>s. s \<noteq> [] \<and> req_body req ''name'' = Some (Str s))"
  shows "convertRouteA e m req w = convertRouteB e m req w"
proof (cases "req_file req")
  case None
  then show ?thesis by (simp add: convertRouteA_def convertRouteB_def)
next
  case (Some f)
  then have "optionsA req f = optionsB req f"
    using assms options_agree by auto
  then show ?thesis
    using Some by (simp add: convertRouteA_def convertRouteB_def)
qed

theorem variants_agree_witness:
  "req_body (sampleRequest [''name'' \<mapsto> Str ''Acme'']) ''name'' = Some (Str ''Acme'')
   \<and> convertRouteA mockEnv (Some ''test'') (sampleRequest [''name'' \<mapsto> Str ''Acme'']) readyWorld
       = convertRouteB mockEnv (Some ''test'') (sampleRequest [''name'' \<mapsto> Str ''Acme''])
           readyWorld
   \<and> fst (convertRouteB mockEnv (Some ''test'') (sampleRequest [''name'' \<mapsto> Str ''Acme''])
            readyWorld)
       = Binary (mockHeaders ''Acme'' True)
           [1, 2, 3, 4, 5]"
proof -
  have a: "req_body (sampleRequest [''name'' \<mapsto> Str ''Acme'']) ''name'' = Some (Str ''Acme'')"
    by (simp add: sampleRequest_def)
  then have h: "req_file (sampleRequest [''name'' \<mapsto> Str ''Acme'']) = None
      \<or> req_body (sampleRequest [''name'' \<mapsto> Str ''Acme'']) ''name'' = None
      \<or> (\<exists>s. s \<noteq> [] \<and> req_body (sampleRequest [''name'' \<mapsto> Str ''Acme'']) ''name''
                     = Some (Str s))"
    by simp
  have eq: "convertRouteA mockEnv (Some ''test'') (sampleRequest [''name'' \<mapsto> Str ''Acme''])
              readyWorld
       = convertRouteB mockEnv (Some ''test'') (sampleRequest [''name'' \<mapsto> Str ''Acme''])
           readyWorld"
    using variants_agree [OF h] .
  have "fst (convertRouteA mockEnv (Some ''test'') (sampleRequest [''name'' \<mapsto> Str ''Acme''])
            readyWorld)
       = Binary (mockHeaders ''Acme'' True)
           [1, 2, 3, 4, 5]"
    using convertRouteA_mock [OF sample_facts(1) sample_facts(2) options_Acme valid_names(2)] .
  then show ?thesis
    using a eq by simp
qed

lemma namedOptions_name_inject:
  "mockHeaders a b = mockHeaders a' b' \<Longrightarrow> a = a'"
  by (simp add: mockHeaders_def successHeaders_def mockResult_def namedOptions_def)

text \<open>
  Claim C9 as stated fails for an empty \<^verbatim>\<open>name\<close> field: the first variant falls back
  to the filename's stem, the second uses the empty string. A \<^verbatim>\<open>name\<close> that is an array
  separates them as well: the first variant keeps it, the second falls back.
\<close>

theorem variants_differ_counterexample:
  "fst (convertRouteA mockEnv (Some ''test'') (sampleRequest [''name'' \<mapsto> Str []]) readyWorld)
     = Binary (mockHeaders ''sample'' True) [1, 2, 3, 4, 5]
   \<and> fst (convertRouteB mockEnv (Some ''test'') (sampleRequest [''name'' \<mapsto> Str []]) readyWorld)
     = Binary (mockHeaders [] True) [1, 2, 3, 4, 5]
   \<and> convertRouteA mockEnv (Some ''test'') (sampleRequest [''name'' \<mapsto> Str []]) readyWorld
     \<noteq> convertRouteB mockEnv (Some ''test'') (sampleRequest [''name'' \<mapsto> Str []]) readyWorld
   \<and> opt_name (optionsA (sampleRequest [''name'' \<mapsto> Arr [Str ''a'', Str ''b'']]) sampleFile)
     = Some (Arr [Str ''a'', Str ''b''])
   \<and> opt_name (optionsB (sampleRequest [''name'' \<mapsto> Arr [Str ''a'', Str ''b'']]) sampleFile)
     = Some (Str ''sample'')"
proof -
  have arr: "opt_name (optionsA (sampleRequest [''name'' \<mapsto> Arr [Str ''a'', Str ''b'']])
                 sampleFile) = Some (Arr [Str ''a'', Str ''b''])"
    "opt_name (optionsB (sampleRequest [''name'' \<mapsto> Arr [Str ''a'', Str ''b'']]) sampleFile)
       = Some (Str ''sample'')"
    by (simp_all add: optionsA_def optionsB_def sampleRequest_def sampleFile_def)
  have oa: "optionsA (sampleRequest [''name'' \<mapsto> Str []]) sampleFile
              = namedOptions ''sample'' True"
    by (simp add: optionsA_def sampleRequest_def sampleFile_def namedOptions_def)
  have ob: "optionsB (sampleRequest [''name'' \<mapsto> Str []]) sampleFile = namedOptions [] True"
    by (simp add: optionsB_def sampleRequest_def sampleFile_def namedOptions_def)
  have a: "fst (convertRouteA mockEnv (Some ''test'') (sampleRequest [''name'' \<mapsto> Str []])
              readyWorld)
     = Binary (mockHeaders ''sample'' True) [1, 2, 3, 4, 5]"
    using convertRouteA_mock [OF sample_facts(1) sample_facts(2) oa valid_names(1)] .
  have b: "fst (convertRouteB mockEnv (Some ''test'') (sampleRequest [''name'' \<mapsto> Str []])
              readyWorld)
     = Binary (mockHeaders [] True) [1, 2, 3, 4, 5]"
    using convertRouteB_mock [OF sample_facts(1) sample_facts(2) ob valid_names(3)] .
  have "mockHeaders ''sample'' True
          \<noteq> mockHeaders [] True"
    using namedOptions_name_inject [of "''sample''" True "[]" True] by fastforce
  then have "fst (convertRouteA mockEnv (Some ''test'') (sampleRequest [''name'' \<mapsto> Str []])
              readyWorld)
     \<noteq> fst (convertRouteB mockEnv (Some ''test'') (sampleRequest [''name'' \<mapsto> Str []])
              readyWorld)"
    by (simp add: a b)
  then have "convertRouteA mockEnv (Some ''test'') (sampleRequest [''name'' \<mapsto> Str []]) readyWorld
     \<noteq> convertRouteB mockEnv (Some ''test'') (sampleRequest [''name'' \<mapsto> Str []]) readyWorld"
    by metis
  then show ?thesis using a b arr by simp
qed

text \<open>
  Claim C1, amended. For a request with a staged file, the answer is the one reading and
  converting produced, and the final world is that of \<open>deleteTempFile\<close> on the staged
  path, run after them whatever their outcome; the staged file is absent afterwards
  whenever the file system does not refuse the unlink, and no other file changes. A
  request without a file is answered with status 400 and leaves the files as they were.
\<close>

theorem staged_file_deletion:
  "(req_file req = Some file \<and> file_path file \<noteq> [] \<longrightarrow>
      fst (convertRouteA e m req w)
        = fst (readAndConvert e m (optionsA req file) (file_path file) w)
      \<and> snd (convertRouteA e m req w)
        = deleteTempFile (snd (readAndConvert e m (optionsA req file) (file_path file) w))
            (file_path file)
      \<and> (unlinkFaults w (file_path file) = None \<longrightarrow>
            files (snd (convertRouteA e m req w)) (file_path file) = None)
      \<and> (\<forall>q. q \<noteq> file_path file \<longrightarrow> files (snd (convertRouteA e m req w)) q = files w q))
   \<and> (req_file req = None \<longrightarrow>
        files (snd (convertRouteA e m req w)) = files w
        \<and> (\<exists>r. fst (convertRouteA e m req w) = Json r \<and> res_statusCode r = 400))"
proof (intro conjI impI allI)
  assume a: "req_file req = Some file \<and> file_path file \<noteq> []"
  let ?w1 = "snd (readAndConvert e m (optionsA req file) (file_path file) w)"
  show r: "fst (convertRouteA e m req w)
        = fst (readAndConvert e m (optionsA req file) (file_path file) w)"
    using a by (simp add: convertRouteA_def case_prod_beta)
  show s: "snd (convertRouteA e m req w) = deleteTempFile ?w1 (file_path file)"
    using a by (simp add: convertRouteA_def case_prod_beta)
  show "files (snd (convertRouteA e m req w)) (file_path file) = None"
    if "unlinkFaults w (file_path file) = None"
  proof -
    have "unlinkFaults ?w1 (file_path file) = None"
      using that by (simp add: readAndConvert_fs)
    then show ?thesis
      by (simp add: s deleteTempFile_absent)
  qed
  show "files (snd (convertRouteA e m req w)) q = files w q" if "q \<noteq> file_path file" for q
    using that by (simp add: s deleteTempFile_others readAndConvert_fs)
next
  assume n: "req_file req = None"
  show "files (snd (convertRouteA e m req w)) = files w"
    using n by (simp add: convertRouteA_def next_error_fs)
  show "\<exists>r. fst (convertRouteA e m req w) = Json r \<and> res_statusCode r = 400"
    using n
    by (simp add: convertRouteA_def next_error_def errorHandler_def ApiError_def Let_def
        case_prod_beta)
qed

lemma convertRouteA_uninitialized:
  "fst (convertRouteA mockEnv (Some ''production'') (sampleRequest Map.empty) uninitializedWorld)
     = Json \<lparr>res_statusCode = 500,
             res_body = \<lparr>body_status = ''error'', body_message = ''Internal server error'',
                         body_stack = None\<rparr>\<rparr>"
  by (simp add: convertRouteA_def readAndConvert_def readFileAsUint8Array_def
      uninitializedWorld_def readyWorld_def sampleRequest_def sampleFile_def convert_def
      ifcConverter0_def newConverter_def next_error_def errorHandler_def JsError_def Let_def
      case_prod_beta)

lemma readAndConvert_mock_console:
  assumes "files w samplePath = Some d" and "ifcConverter w = readyConverter"
    and "list_all validHeaderChar (disposition n)"
  shows "console (snd (readAndConvert mockEnv m (namedOptions n b) samplePath w)) = console w"
proof -
  obtain r c' where rc: "convert mockEnv readyConverter d (namedOptions n b) = (r, c')"
    by (cases "convert mockEnv readyConverter d (namedOptions n b)")
  then have "r = Inr (mockResult (namedOptions n b))"
    using convert_mock [of d "namedOptions n b"] by simp
  then show ?thesis
    using assms(1,2) rc setHeaders_named [OF assms(3), of mockEnv b]
    by (simp add: readAndConvert_def readFileAsUint8Array_def)
qed

text \<open>A name with a control character: the engine runs, the header is refused, and the
  answer is the fault 500.\<close>

lemma header_refused:
  "fst (readAndConvert mockEnv (Some ''production'') (namedOptions [CHR 0x01] True) samplePath
          readyWorld)
     = Json \<lparr>res_statusCode = 500,
             res_body = \<lparr>body_status = ''error'', body_message = ''Internal server error'',
                         body_stack = None\<rparr>\<rparr>"
proof -
  obtain r c' where rc: "convert mockEnv readyConverter [73, 70, 67] (namedOptions [CHR 0x01] True) = (r, c')"
    by (cases "convert mockEnv readyConverter [73, 70, 67] (namedOptions [CHR 0x01] True)")
  then have "r = Inr (mockResult (namedOptions [CHR 0x01] True))"
    using convert_mock [of "[73, 70, 67]" "namedOptions [CHR 0x01] True"] by simp
  then show ?thesis
    using rc
    by (simp add: readAndConvert_def readFileAsUint8Array_def sample_facts setHeaders_def
        templateString_def namedOptions_def disposition_def validHeaderChar_def next_error_def
        errorHandler_def TypeError_def JsError_def Let_def)
qed

theorem staged_file_deletion_witness:
  "req_file (sampleRequest Map.empty) = Some sampleFile \<and> file_path sampleFile \<noteq> []
   \<and> unlinkFaults readyWorld (file_path sampleFile) = None
   \<and> fst (convertRouteA mockEnv (Some ''production'') (sampleRequest Map.empty) readyWorld)
       = Binary (mockHeaders ''sample'' True) [1, 2, 3, 4, 5]
   \<and> files readyWorld (file_path sampleFile) = Some [73, 70, 67]
   \<and> files (snd (convertRouteA mockEnv (Some ''production'') (sampleRequest Map.empty)
         readyWorld)) (file_path sampleFile) = None
   \<and> unlinkFaults uninitializedWorld (file_path sampleFile) = None
   \<and> fst (convertRouteA mockEnv (Some ''production'') (sampleRequest Map.empty)
         uninitializedWorld)
       = Json \<lparr>res_statusCode = 500,
               res_body = \<lparr>body_status = ''error'', body_message = ''Internal server error'',
                           body_stack = None\<rparr>\<rparr>
   \<and> files uninitializedWorld (file_path sampleFile) = Some [73, 70, 67]
   \<and> files (snd (convertRouteA mockEnv (Some ''production'') (sampleRequest Map.empty)
         uninitializedWorld)) (file_path sampleFile) = None
   \<and> req_file \<lparr>req_file = None, req_body = Map.empty\<rparr> = None
   \<and> files (snd (convertRouteA mockEnv (Some ''production'')
         \<lparr>req_file = None, req_body = Map.empty\<rparr> readyWorld)) = files readyWorld"
proof -
  have u: "unlinkFaults uninitializedWorld (file_path sampleFile) = None"
      "files uninitializedWorld (file_path sampleFile) = Some [73, 70, 67]"
    by (simp_all add: uninitializedWorld_def sample_facts)
  have ok: "fst (convertRouteA mockEnv (Some ''production'') (sampleRequest Map.empty) readyWorld)
       = Binary (mockHeaders ''sample'' True) [1, 2, 3, 4, 5]"
    using convertRouteA_mock [OF sample_facts(1) sample_facts(2) options_absent valid_names(1)] .
  have p: "req_file (sampleRequest Map.empty) = Some sampleFile \<and> file_path sampleFile \<noteq> []"
    by (simp add: sample_facts)
  have q: "unlinkFaults readyWorld (file_path sampleFile) = None"
    "files readyWorld (file_path sampleFile) = Some [73, 70, 67]"
    by (simp_all add: sample_facts)
  have n: "req_file \<lparr>req_file = None, req_body = Map.empty\<rparr> = None"
    by simp
  have d1: "files (snd (convertRouteA mockEnv (Some ''production'') (sampleRequest Map.empty)
         readyWorld)) (file_path sampleFile) = None"
    using p q(1)
      staged_file_deletion [of "sampleRequest Map.empty" sampleFile mockEnv "Some ''production''"
        readyWorld]
    by blast
  have d2: "files (snd (convertRouteA mockEnv (Some ''production'') (sampleRequest Map.empty)
         uninitializedWorld)) (file_path sampleFile) = None"
    using p u(1)
      staged_file_deletion [of "sampleRequest Map.empty" sampleFile mockEnv "Some ''production''"
        uninitializedWorld]
    by blast
  have d3: "files (snd (convertRouteA mockEnv (Some ''production'')
         \<lparr>req_file = None, req_body = Map.empty\<rparr> readyWorld)) = files readyWorld"
    using n
      staged_file_deletion [of "\<lparr>req_file = None, req_body = Map.empty\<rparr>" sampleFile mockEnv
        "Some ''production''" readyWorld]
    by blast
  show ?thesis
    using p q u ok convertRouteA_uninitialized n d1 d2 d3 by blast
qed

text \<open>
  Claim C1 as stated fails when the unlink is refused: \<open>deleteTempFile\<close> prints the
  error and returns, the conversion having succeeded, and the staged file is still there.
\<close>

theorem staged_file_remains_counterexample:
  "req_file (sampleRequest Map.empty) = Some sampleFile
   \<and> fst (convertRouteA mockEnv (Some ''production'') (sampleRequest Map.empty) faultyWorld)
       = Binary (mockHeaders ''sample'' True) [1, 2, 3, 4, 5]
   \<and> files (snd (convertRouteA mockEnv (Some ''production'') (sampleRequest Map.empty)
         faultyWorld)) (file_path sampleFile) = Some [73, 70, 67]
   \<and> console (snd (convertRouteA mockEnv (Some ''production'') (sampleRequest Map.empty)
         faultyWorld)) = [LogDeleteFailed samplePath (Fault EACCES)]"
proof -
  let ?opts = "optionsA (sampleRequest Map.empty) sampleFile"
  let ?w1 = "snd (readAndConvert mockEnv (Some ''production'') ?opts samplePath faultyWorld)"
  have ok: "fst (convertRouteA mockEnv (Some ''production'') (sampleRequest Map.empty) faultyWorld)
       = Binary (mockHeaders ''sample'' True) [1, 2, 3, 4, 5]"
    using convertRouteA_mock [OF sample_facts(4) sample_facts(5) options_absent valid_names(1)] .
  have s: "snd (convertRouteA mockEnv (Some ''production'') (sampleRequest Map.empty) faultyWorld)
             = deleteTempFile ?w1 samplePath"
    by (simp add: convertRouteA_def case_prod_beta sample_facts)
  have f: "files ?w1 = files faultyWorld" "unlinkFaults ?w1 = unlinkFaults faultyWorld"
    by (simp_all add: readAndConvert_fs)
  have c: "console ?w1 = []"
    using readAndConvert_mock_console [OF sample_facts(4) sample_facts(5) valid_names(1),
        of "Some ''production''" True]
    by (simp add: options_absent faultyWorld_def readyWorld_def)
  have d: "deleteTempFile ?w1 samplePath
             = ?w1\<lparr>console := console ?w1 @ [LogDeleteFailed samplePath (Fault EACCES)]\<rparr>"
    by (simp add: deleteTempFile_def unlink_def f sample_facts)
  show ?thesis
    using ok by (simp add: s d c f sample_facts)
qed

section \<open>Properties of the error translation\<close>

text \<open>
  Claim C8, amended. In production the body never has a stack. Outside production the
  body carries the error's stack in the general branch only; the branches for the upload
  library's errors and for JSON syntax errors answer without one. The status code, the
  status discriminator and the message do not depend on the mode.
\<close>

theorem stack_trace_exposure:
  "body_stack (res_body (fst (errorHandler (Some ''production'') err))) = None
   \<and> (nodeEnv \<noteq> Some ''production'' \<and> err_name err \<noteq> ''MulterError''
        \<and> \<not> (err_name err = ''SyntaxError'' \<and> err_hasBody err) \<longrightarrow>
        body_stack (res_body (fst (errorHandler nodeEnv err))) = err_stack err)
   \<and> (err_name err = ''MulterError'' \<or> (err_name err = ''SyntaxError'' \<and> err_hasBody err) \<longrightarrow>
        body_stack (res_body (fst (errorHandler nodeEnv err))) = None)
   \<and> res_statusCode (fst (errorHandler nodeEnv err))
       = res_statusCode (fst (errorHandler nodeEnv' err))
   \<and> body_status (res_body (fst (errorHandler nodeEnv err)))
       = body_status (res_body (fst (errorHandler nodeEnv' err)))
   \<and> body_message (res_body (fst (errorHandler nodeEnv err)))
       = body_message (res_body (fst (errorHandler nodeEnv' err)))"
  by (simp add: errorHandler_def Let_def)

theorem stack_trace_exposure_witness:
  "Some ''development'' \<noteq> Some ''production''
   \<and> err_name (JsError ''Error: boom'' ''boom'') \<noteq> ''MulterError''
   \<and> err_name (JsError ''Error: boom'' ''boom'') \<noteq> ''SyntaxError''
   \<and> body_stack (res_body (fst (errorHandler (Some ''development'')
         (JsError ''Error: boom'' ''boom'')))) = Some ''Error: boom''
   \<and> body_stack (res_body (fst (errorHandler (Some ''production'')
         (JsError ''Error: boom'' ''boom'')))) = None
   \<and> err_name tooLarge = ''MulterError''
   \<and> body_stack (res_body (fst (errorHandler (Some ''development'') tooLarge))) = None"
proof -
  have a: "(Some ''development'' :: string option) \<noteq> Some ''production''"
    by simp
  have b: "err_name (JsError ''Error: boom'' ''boom'') \<noteq> ''MulterError''"
    "err_name (JsError ''Error: boom'' ''boom'') \<noteq> ''SyntaxError''"
    "err_stack (JsError ''Error: boom'' ''boom'') = Some ''Error: boom''"
    by (simp_all add: JsError_def)
  have c: "err_name tooLarge = ''MulterError''"
    by (simp add: tooLarge_def MulterError_def)
  show ?thesis
    using a b c
      stack_trace_exposure [of "JsError ''Error: boom'' ''boom''" "Some ''development''"]
      stack_trace_exposure [of tooLarge "Some ''development''"]
    by simp
qed

text \<open>
  Claim C8 as stated fails in development mode for an error of the upload library: the
  error has a stack, the body has none.
\<close>

theorem stack_trace_missing_counterexample:
  "Some ''development'' \<noteq> Some ''production''
   \<and> err_stack tooLarge = Some ''MulterError: File too large''
   \<and> fst (errorHandler (Some ''development'') tooLarge)
       = \<lparr>res_statusCode = 400,
          res_body = \<lparr>body_status = ''fail'',
                      body_message = ''File upload error: File too large'',
                      body_stack = None\<rparr>\<rparr>"
  by (simp add: errorHandler_def tooLarge_def MulterError_def JsError_def Let_def)

text \<open>
  Claim C3. A file one byte over the limit gives the upload library's error
  \<^verbatim>\<open>LIMIT_FILE_SIZE\<close>, which the error handler answers with status 400, not 413:
  the status of the other client faults.
\<close>

theorem oversized_upload_status:
  "fileSizeLimit ''MulterError: File too large'' (limits_fileSize + 1) = Some tooLarge
   \<and> fst (errorHandler nodeEnv tooLarge)
       = \<lparr>res_statusCode = 400,
          res_body = \<lparr>body_status = ''fail'',
                      body_message = ''File upload error: File too large'',
                      body_stack = None\<rparr>\<rparr>
   \<and> res_statusCode (fst (errorHandler nodeEnv tooLarge)) \<noteq> 413
   \<and> res_statusCode (fst (errorHandler nodeEnv (ApiError st ''Only IFC files are allowed'' 400)))
       = 400"
  by (simp add: fileSizeLimit_def errorHandler_def tooLarge_def MulterError_def JsError_def
      ApiError_def Let_def)

section \<open>Properties of the process\<close>

lemma statusRoute_ready: "ready (statusRoute c)"
  by (simp add: statusRoute_def)










end
